theory Spec2Isabelle
  imports Complex_Main
begin

section \<open>Strings\<close>

text \<open>
  A JavaScript string is a sequence of UTF-16 code units. It is modelled as a list of
  natural numbers, one per code unit, so that the glyphs of the watermark line and the
  Unicode white space removed by \<^verbatim>\<open>trim\<close> are what they are in the program.
  \<open>js\<close> turns an ASCII literal into such a string.
\<close>

type_synonym jsstring = "nat list"

definition js :: "string \<Rightarrow> jsstring" where
  "js s = map of_char s"

text \<open>\<^verbatim>\<open>s.includes(c)\<close> for a one-character needle.\<close>

definition includes_char :: "nat \<Rightarrow> jsstring \<Rightarrow> bool" where
  "includes_char c s = (c \<in> set s)"

text \<open>\<^verbatim>\<open>s.split(c)\<close> for a one-character separator: the empty string gives one empty piece.\<close>

fun split :: "nat \<Rightarrow> jsstring \<Rightarrow> jsstring list" where
  "split c [] = [[]]"
| "split c (x # xs) =
     (if x = c then [] # split c xs
      else (case split c xs of [] \<Rightarrow> [[x]] | p # ps \<Rightarrow> (x # p) # ps))"

text \<open>\<^verbatim>\<open>parts.join(sep)\<close>.\<close>

fun join :: "jsstring \<Rightarrow> jsstring list \<Rightarrow> jsstring" where
  "join sep [] = []"
| "join sep [p] = p"
| "join sep (p # q # ps) = p @ sep @ join sep (q # ps)"

text \<open>
  \<^verbatim>\<open>s.trim()\<close> removes white space and line terminators from both ends: TAB, LF, VT, FF,
  CR, SP, NBSP, U+1680, U+2000 to U+200A, U+2028, U+2029, U+202F, U+205F, U+3000, U+FEFF.
\<close>

definition is_ws :: "nat \<Rightarrow> bool" where
  "is_ws c = (c \<in> {9, 10, 11, 12, 13, 32, 160, 5760, 8232, 8233, 8239, 8287, 12288, 65279}
              \<or> (8192 \<le> c \<and> c \<le> 8202))"

definition trim :: "jsstring \<Rightarrow> jsstring" where
  "trim s = rev (dropWhile is_ws (rev (dropWhile is_ws s)))"

text \<open>\<^verbatim>\<open>s.replace(/\.0$/, '')\<close>: a final ".0" is removed.\<close>

definition strip_dot0 :: "jsstring \<Rightarrow> jsstring" where
  "strip_dot0 s = (if 2 \<le> length s \<and> drop (length s - 2) s = [46, 48]
                   then take (length s - 2) s else s)"

section \<open>Numbers\<close>

text \<open>
  A JavaScript Number is an IEEE 754 binary64 value: NaN, an infinity with its sign, or a
  finite value, kept here as a sign (\<open>True\<close> for minus) and an exact rational magnitude,
  so that \<open>Fin True 0\<close> is the negative zero. Every arithmetic operation computes the
  exact result and rounds it to the nearest binary64 value, ties to even (\<open>rnd\<close>).
\<close>

datatype jsnum = NaN | Infty bool | Fin bool rat

text \<open>\<open>ipow b e\<close> is \<open>b\<close> to an integer power; \<open>bits n\<close> is the binary length of \<open>n\<close>.\<close>

definition ipow :: "rat \<Rightarrow> int \<Rightarrow> rat" where
  "ipow b e = (if 0 \<le> e then b ^ nat e else 1 / b ^ nat (- e))"

function bits :: "int \<Rightarrow> int" where
  "bits n = (if n \<le> 0 then 0 else 1 + bits (n div 2))"
  by pat_completeness auto
termination
  by (relation "measure nat") auto

declare bits.simps [simp del]

text \<open>
  \<open>ilog2 q\<close> is the integer part of the binary logarithm of \<open>q > 0\<close>: one less than
  the binary length of the integer part of \<open>q\<close> from 1 on; below 1, minus the binary
  length of the integer part of \<open>1 / q\<close>, or one more when \<open>q\<close> is a power of two.
\<close>

definition ilog2 :: "rat \<Rightarrow> int" where
  "ilog2 q = (if 1 \<le> q then bits \<lfloor>q\<rfloor> - 1
     else (let e = - bits \<lfloor>1 / q\<rfloor> in if ipow 2 (e + 1) \<le> q then e + 1 else e))"

definition round_even :: "rat \<Rightarrow> int" where
  "round_even x = (let f = \<lfloor>x\<rfloor>; r = x - of_int f
     in if r < 1 / 2 then f else if 1 / 2 < r then f + 1 else if even f then f else f + 1)"

text \<open>
  Rounding of an exact magnitude \<open>a\<close> with sign \<open>s\<close>: 53 significant bits, the
  exponent not below that of the subnormals, overflow to infinity at \<open>2 ^ 1024\<close>.
\<close>

definition rnd :: "bool \<Rightarrow> rat \<Rightarrow> jsnum" where
  "rnd s a = (if a = 0 then Fin s 0
     else (let p = max (ilog2 a) (- 1022) - 52;
               v = of_int (round_even (a / ipow 2 p)) * ipow 2 p
           in if ipow 2 1024 \<le> v then Infty s else Fin s v))"

definition num :: "rat \<Rightarrow> jsnum" where
  "num q = rnd (q < 0) \<bar>q\<bar>"

definition val :: "bool \<Rightarrow> rat \<Rightarrow> rat" where
  "val s m = (if s then - m else m)"

text \<open>Unary minus, \<^verbatim>\<open>/\<close>, \<^verbatim>\<open>*\<close>, \<^verbatim>\<open>+\<close>, \<^verbatim>\<open>-\<close> and \<^verbatim>\<open><\<close> on Numbers.\<close>

fun neg :: "jsnum \<Rightarrow> jsnum" where
  "neg NaN = NaN"
| "neg (Infty s) = Infty (\<not> s)"
| "neg (Fin s m) = Fin (\<not> s) m"

fun divide_num :: "jsnum \<Rightarrow> jsnum \<Rightarrow> jsnum" where
  "divide_num NaN y = NaN"
| "divide_num x NaN = NaN"
| "divide_num (Infty s) (Infty t) = NaN"
| "divide_num (Infty s) (Fin t b) = Infty (s \<noteq> t)"
| "divide_num (Fin s a) (Infty t) = Fin (s \<noteq> t) 0"
| "divide_num (Fin s a) (Fin t b) =
     (if b = 0 then (if a = 0 then NaN else Infty (s \<noteq> t)) else rnd (s \<noteq> t) (a / b))"

fun multiply :: "jsnum \<Rightarrow> jsnum \<Rightarrow> jsnum" where
  "multiply NaN y = NaN"
| "multiply x NaN = NaN"
| "multiply (Infty s) (Infty t) = Infty (s \<noteq> t)"
| "multiply (Infty s) (Fin t b) = (if b = 0 then NaN else Infty (s \<noteq> t))"
| "multiply (Fin s a) (Infty t) = (if a = 0 then NaN else Infty (s \<noteq> t))"
| "multiply (Fin s a) (Fin t b) = rnd (s \<noteq> t) (a * b)"

fun add :: "jsnum \<Rightarrow> jsnum \<Rightarrow> jsnum" where
  "add NaN y = NaN"
| "add x NaN = NaN"
| "add (Infty s) (Infty t) = (if s = t then Infty s else NaN)"
| "add (Infty s) (Fin t b) = Infty s"
| "add (Fin s a) (Infty t) = Infty t"
| "add (Fin s a) (Fin t b) =
     (let r = val s a + val t b in if r = 0 then Fin (s \<and> t) 0 else num r)"

definition subtract :: "jsnum \<Rightarrow> jsnum \<Rightarrow> jsnum" where
  "subtract x y = add x (neg y)"

fun less_than :: "jsnum \<Rightarrow> jsnum \<Rightarrow> bool" where
  "less_than NaN y = False"
| "less_than x NaN = False"
| "less_than (Infty s) (Infty t) = (s \<and> \<not> t)"
| "less_than (Infty s) (Fin t b) = s"
| "less_than (Fin s a) (Infty t) = (\<not> t)"
| "less_than (Fin s a) (Fin t b) = (val s a < val t b)"

text \<open>
  \<^verbatim>\<open>Math.round\<close> gives the nearest integer, the larger one on a tie, and keeps the sign of
  a result that is zero. \<^verbatim>\<open>Math.max\<close> propagates NaN and puts \<open>+0\<close> above \<open>-0\<close>.
\<close>

fun Math_round :: "jsnum \<Rightarrow> jsnum" where
  "Math_round NaN = NaN"
| "Math_round (Infty s) = Infty s"
| "Math_round (Fin s a) =
     (let r = \<lfloor>val s a + 1 / 2\<rfloor> in if r = 0 then Fin s 0 else Fin (r < 0) (of_int \<bar>r\<bar>))"

fun Math_max :: "jsnum \<Rightarrow> jsnum \<Rightarrow> jsnum" where
  "Math_max NaN y = NaN"
| "Math_max x NaN = NaN"
| "Math_max x y =
     (if less_than x y then y else if less_than y x then x
      else if x = Fin True 0 then y else x)"

text \<open>A Number in a condition is falsy when it is NaN or a zero.\<close>

fun truthy_num :: "jsnum \<Rightarrow> bool" where
  "truthy_num NaN = False"
| "truthy_num (Infty s) = True"
| "truthy_num (Fin s a) = (a \<noteq> 0)"

text \<open>\<^verbatim>\<open>Number.isFinite\<close>.\<close>

fun isFinite :: "jsnum \<Rightarrow> bool" where
  "isFinite (Fin s a) = True"
| "isFinite x = False"

subsection \<open>Numbers to strings\<close>

text \<open>
  \<^verbatim>\<open>String(x)\<close>, as a template literal applies it: the shortest decimal numeral that
  rounds back to \<open>x\<close> (\<open>shortest\<close> tries 1 to 17 digits; 17 always identify a binary64
  value), laid out without exponent for decimal exponents from -6 to 21.
\<close>

function digits_of :: "int \<Rightarrow> jsstring" where
  "digits_of n = (if n < 10 then [48 + nat n] else digits_of (n div 10) @ [48 + nat (n mod 10)])"
  by pat_completeness auto
termination
  by (relation "measure nat") auto

declare digits_of.simps [simp del]

definition ilog10 :: "rat \<Rightarrow> int" where
  "ilog10 q = (if 1 \<le> q then int (length (digits_of \<lfloor>q\<rfloor>)) - 1
     else (let e = - int (length (digits_of \<lfloor>1 / q\<rfloor>))
           in if ipow 10 (e + 1) \<le> q then e + 1 else e))"

definition try_digits :: "rat \<Rightarrow> nat \<Rightarrow> (int \<times> int) option" where
  "try_digits x k =
     (let n = ilog10 x + 1; sc = ipow 10 (n - int k);
          lo = \<lfloor>x / sc\<rfloor>; hi = lo + 1;
          oklo = (num (of_int lo * sc) = Fin False x);
          okhi = (num (of_int hi * sc) = Fin False x);
          dlo = x - of_int lo * sc; dhi = of_int hi * sc - x
      in if oklo \<and> (\<not> okhi \<or> dlo < dhi \<or> (dlo = dhi \<and> even lo))
         then Some (lo, n + (int (length (digits_of lo)) - int k))
         else if okhi then Some (hi, n + (int (length (digits_of hi)) - int k))
         else None)"

fun first_digits :: "rat \<Rightarrow> nat list \<Rightarrow> (int \<times> int) option" where
  "first_digits x [] = None"
| "first_digits x (k # ks) =
     (case try_digits x k of Some r \<Rightarrow> Some r | None \<Rightarrow> first_digits x ks)"

definition shortest :: "rat \<Rightarrow> int \<times> int" where
  "shortest x = (case first_digits x [1, 2, 3, 4, 5, 6, 7, 8, 9, 10, 11, 12, 13, 14, 15, 16, 17] of Some r \<Rightarrow> r
     | None \<Rightarrow> (\<lfloor>x / ipow 10 (ilog10 x - 16)\<rfloor>, ilog10 x + 1))"

definition strip_zeros :: "jsstring \<Rightarrow> jsstring" where
  "strip_zeros d = rev (dropWhile (\<lambda>c. c = 48) (rev d))"

definition render :: "int \<times> int \<Rightarrow> jsstring" where
  "render r = (case r of (c, n) \<Rightarrow>
     (let d = strip_zeros (digits_of c); k = int (length d)
      in if k \<le> n \<and> n \<le> 21 then d @ replicate (nat (n - k)) 48
         else if 0 < n \<and> n \<le> 21 then take (nat n) d @ [46] @ drop (nat n) d
         else if - 6 < n \<and> n \<le> 0 then [48, 46] @ replicate (nat (- n)) 48 @ d
         else (let e = n - 1; es = (if e < 0 then [45] else [43]) @ digits_of \<bar>e\<bar>
               in if k = 1 then d @ [101] @ es
                  else take 1 d @ [46] @ drop 1 d @ [101] @ es)))"

fun ToString :: "jsnum \<Rightarrow> jsstring" where
  "ToString NaN = js ''NaN''"
| "ToString (Infty s) = (if s then js ''-Infinity'' else js ''Infinity'')"
| "ToString (Fin s m) =
     (if m = 0 then js ''0'' else (if s then js ''-'' else []) @ render (shortest m))"

text \<open>
  \<^verbatim>\<open>x.toFixed(1)\<close>: for a magnitude below \<open>10 ^ 21\<close>, the integer \<open>n\<close> nearest to ten
  times the magnitude (the larger on a tie) written with one digit after the point; from
  \<open>10 ^ 21\<close> on, and for NaN and the infinities, the result of \<^verbatim>\<open>String(x)\<close>.
\<close>

fun toFixed1 :: "jsnum \<Rightarrow> jsstring" where
  "toFixed1 (Fin s m) =
     (let sg = (if s \<and> m \<noteq> 0 then js ''-'' else [])
      in if ipow 10 21 \<le> m then sg @ ToString (Fin False m)
         else (let ds = digits_of \<lfloor>m * 10 + 1 / 2\<rfloor>;
                   ds' = (if length ds \<le> 1 then replicate (2 - length ds) 48 @ ds else ds)
               in sg @ butlast ds' @ [46] @ [last ds']))"
| "toFixed1 x = ToString x"

subsection \<open>Strings to numbers\<close>

text \<open>
  \<^verbatim>\<open>Number(str)\<close> follows the grammar of string numeric literals: white space around,
  nothing (zero), a binary, octal or hexadecimal integer, or an optionally signed decimal
  literal (\<^verbatim>\<open>Infinity\<close>, digits with an optional fraction and exponent). Anything else
  is NaN.
\<close>

definition is_digit :: "nat \<Rightarrow> bool" where
  "is_digit c = (48 \<le> c \<and> c \<le> 57)"

definition digit_val :: "nat \<Rightarrow> nat" where
  "digit_val c = (if 97 \<le> c then c - 87 else if 65 \<le> c then c - 55 else c - 48)"

definition is_digit_in :: "nat \<Rightarrow> nat \<Rightarrow> bool" where
  "is_digit_in b c = ((is_digit c \<or> (97 \<le> c \<and> c \<le> 102) \<or> (65 \<le> c \<and> c \<le> 70)) \<and> digit_val c < b)"

definition digits_val :: "nat \<Rightarrow> jsstring \<Rightarrow> int" where
  "digits_val b ds = foldl (\<lambda>a c. int b * a + int (digit_val c)) 0 ds"

definition ExponentPart :: "jsstring \<Rightarrow> int option" where
  "ExponentPart r = (case r of [] \<Rightarrow> Some 0
     | c # r' \<Rightarrow>
        if c = 101 \<or> c = 69 then
          (case r' of [] \<Rightarrow> None
           | d # ds \<Rightarrow>
              if d = 43 then (if ds \<noteq> [] \<and> list_all is_digit ds then Some (digits_val 10 ds) else None)
              else if d = 45 then (if ds \<noteq> [] \<and> list_all is_digit ds then Some (- digits_val 10 ds) else None)
              else (if list_all is_digit r' then Some (digits_val 10 r') else None))
        else None)"

definition StrUnsignedDecimalLiteral :: "jsstring \<Rightarrow> rat option" where
  "StrUnsignedDecimalLiteral u =
     (let ip = takeWhile is_digit u; r1 = dropWhile is_digit u;
          fp = (case r1 of [] \<Rightarrow> [] | c # r \<Rightarrow> if c = 46 then takeWhile is_digit r else []);
          r2 = (case r1 of [] \<Rightarrow> [] | c # r \<Rightarrow> if c = 46 then dropWhile is_digit r else r1)
      in if ip = [] \<and> fp = [] then None
         else (case ExponentPart r2 of None \<Rightarrow> None
               | Some e \<Rightarrow> Some (of_int (digits_val 10 (ip @ fp)) * ipow 10 (e - int (length fp)))))"

definition StrDecimalLiteral :: "bool \<Rightarrow> jsstring \<Rightarrow> jsnum" where
  "StrDecimalLiteral s u =
     (if u = js ''Infinity'' then Infty s
      else (case StrUnsignedDecimalLiteral u of None \<Rightarrow> NaN | Some q \<Rightarrow> rnd s q))"

definition NonDecimalIntegerLiteral :: "jsstring \<Rightarrow> jsnum option" where
  "NonDecimalIntegerLiteral t = (case t of
       z # c # ds \<Rightarrow>
         (let b = (if c = 120 \<or> c = 88 then 16 else if c = 111 \<or> c = 79 then 8
                   else if c = 98 \<or> c = 66 then 2 else (0::nat))
          in if z = 48 \<and> b \<noteq> 0 \<and> ds \<noteq> [] \<and> list_all (is_digit_in b) ds
             then Some (num (of_int (digits_val b ds))) else None)
     | _ \<Rightarrow> None)"

definition Number :: "jsstring \<Rightarrow> jsnum" where
  "Number str = (case trim str of
       [] \<Rightarrow> Fin False 0
     | c # u \<Rightarrow>
         (case NonDecimalIntegerLiteral (c # u) of
            Some v \<Rightarrow> v
          | None \<Rightarrow> if c = 43 then StrDecimalLiteral False u
                    else if c = 45 then StrDecimalLiteral True u
                    else StrDecimalLiteral False (c # u)))"

section \<open>The metadata record\<close>

text \<open>The object returned by \<^verbatim>\<open>readExif\<close> and read by \<^verbatim>\<open>addWatermark\<close>.\<close>

record exif =
  model :: jsstring
  fNumber :: jsstring
  exposure :: jsstring
  iso :: jsstring

section \<open>Reading the metadata\<close>

text \<open>
  A value that may be \<^verbatim>\<open>undefined\<close> or \<^verbatim>\<open>null\<close> is an \<open>option\<close>. In a condition
  a string is truthy when it is there and not empty; \<^verbatim>\<open>x || d\<close> is \<open>or_else x d\<close>.
\<close>

fun truthy :: "jsstring option \<Rightarrow> bool" where
  "truthy None = False"
| "truthy (Some s) = (s \<noteq> [])"

fun or_else :: "jsstring option \<Rightarrow> jsstring \<Rightarrow> jsstring" where
  "or_else None d = d"
| "or_else (Some s) d = (if s \<noteq> [] then s else d)"

text \<open>Array destructuring: a position beyond the end of the array is \<^verbatim>\<open>undefined\<close>.\<close>

definition nth_opt :: "'a list \<Rightarrow> nat \<Rightarrow> 'a option" where
  "nth_opt xs n = (if n < length xs then Some (xs ! n) else None)"

text \<open>
  \<^verbatim>\<open>rationalToFloat\<close>: \<open>None\<close> is the \<^verbatim>\<open>null\<close> it returns. With a slash in the
  string, the first two pieces are converted and divided when the second is truthy;
  otherwise, and without a slash, the whole string is converted and kept when finite.
\<close>

definition plain_number :: "jsstring \<Rightarrow> jsnum option" where
  "plain_number s = (let n = Number s in if isFinite n then Some n else None)"

fun rationalToFloat :: "jsstring option \<Rightarrow> jsnum option" where
  "rationalToFloat None = None"
| "rationalToFloat (Some s) =
     (if s = [] then None
      else (case (if includes_char 47 s then map Number (split 47 s) else []) of
              a # b # rest \<Rightarrow> if truthy_num b then Some (divide_num a b) else plain_number s
            | _ \<Rightarrow> plain_number s))"

text \<open>
  \<^verbatim>\<open>Math.pow\<close> is implementation-approximated in ECMAScript, so it is a parameter
  \<open>pow\<close> of everything that calls it. \<^verbatim>\<open>Math.SQRT2\<close> is the binary64 value nearest to
  the square root of two, which the numeral 1.4142135623730951 denotes.
\<close>

type_synonym power = "jsnum \<Rightarrow> jsnum \<Rightarrow> jsnum"

definition SQRT2 :: jsnum where
  "SQRT2 = num (14142135623730951 / 10 ^ 16)"

text \<open>The seven format escapes joined by a bar, and the pieces of the answer.\<close>

definition fmt :: jsstring where
  "fmt = join (js ''|'')
     [js ''%[EXIF:Model]'', js ''%[EXIF:FNumber]'', js ''%[EXIF:ApertureValue]'',
      js ''%[EXIF:ExposureTime]'', js ''%[EXIF:ShutterSpeedValue]'',
      js ''%[EXIF:ISOSpeedRatings]'', js ''%[EXIF:PhotographicSensitivity]'']"

definition tag_values :: "jsstring \<Rightarrow> jsstring list" where
  "tag_values stdout = map trim (split 124 (trim stdout))"

text \<open>The block commented \<^verbatim>\<open>F-number\<close>: its two conditionals, in order.\<close>

definition fNumber_from_aperture :: "power \<Rightarrow> jsstring option \<Rightarrow> jsstring option \<Rightarrow> jsstring option" where
  "fNumber_from_aperture pow fnum av =
     (if \<not> truthy fnum \<and> truthy av then
        (case rationalToFloat av of
           Some avFloat \<Rightarrow> Some (strip_dot0 (toFixed1 (pow SQRT2 avFloat)))
         | None \<Rightarrow> fnum)
      else fnum)"

definition fNumber_from_rational :: "jsstring option \<Rightarrow> jsstring option" where
  "fNumber_from_rational fNumber0 =
     (case fNumber0 of
        None \<Rightarrow> fNumber0
      | Some f \<Rightarrow>
          if f \<noteq> [] \<and> includes_char 47 f then
            (case rationalToFloat fNumber0 of
               Some rf \<Rightarrow> Some (strip_dot0 (toFixed1 rf))
             | None \<Rightarrow> fNumber0)
          else fNumber0)"

text \<open>
  The block commented \<^verbatim>\<open>Exposure\<close>. \<open>fraction_or_seconds\<close> is the conditional
  expression of the first block, \<open>fraction_or_plain\<close> that of the second.
\<close>

definition one_over :: "jsnum \<Rightarrow> jsstring" where
  "one_over t = js ''1/'' @ ToString (Math_round (divide_num (Fin False 1) t))"

definition fraction_or_seconds :: "jsnum \<Rightarrow> jsstring" where
  "fraction_or_seconds t =
     (if less_than t (Fin False 1) then one_over t else strip_dot0 (toFixed1 t) @ js ''s'')"

definition fraction_or_plain :: "jsnum \<Rightarrow> jsstring" where
  "fraction_or_plain t =
     (if less_than t (Fin False 1) then one_over t else ToString t @ js ''s'')"

definition exposure_from_shutter :: "power \<Rightarrow> jsstring option \<Rightarrow> jsstring option \<Rightarrow> jsstring option" where
  "exposure_from_shutter pow expo ssv =
     (if \<not> truthy expo \<and> truthy ssv then
        (case rationalToFloat ssv of
           Some tv \<Rightarrow> Some (fraction_or_seconds (pow (Fin False 2) (neg tv)))
         | None \<Rightarrow> expo)
      else expo)"

definition exposure_reformat :: "jsstring option \<Rightarrow> jsstring option" where
  "exposure_reformat exposure0 =
     (case exposure0 of
        None \<Rightarrow> exposure0
      | Some e \<Rightarrow>
          if e \<noteq> [] \<and> \<not> includes_char 47 e then
            (let t = Number e in if isFinite t then Some (fraction_or_plain t) else exposure0)
          else exposure0)"

text \<open>What \<^verbatim>\<open>readExif\<close> makes of the output of the metadata query.\<close>

definition readExif_record :: "power \<Rightarrow> jsstring \<Rightarrow> exif" where
  "readExif_record pow stdout =
     (let fs = tag_values stdout;
          fNumber2 = fNumber_from_rational (fNumber_from_aperture pow (nth_opt fs 1) (nth_opt fs 2));
          exposure2 = exposure_reformat (exposure_from_shutter pow (nth_opt fs 3) (nth_opt fs 4));
          iso0 = or_else (nth_opt fs 5) (or_else (nth_opt fs 6) [])
      in \<lparr> model = or_else (nth_opt fs 0) (js ''Camera''),
           fNumber = or_else fNumber2 [],
           exposure = or_else exposure2 [],
           iso = iso0 \<rparr>)"

text \<open>
  A sample \<open>pow\<close>, used to run the model on concrete inputs: correctly rounded where the
  exponent is an integer and the base finite and not zero, NaN elsewhere.
\<close>

definition pow_sample :: power where
  "pow_sample b e =
     (case (b, e) of
        (Fin s m, Fin t n) \<Rightarrow>
          if m \<noteq> 0 \<and> of_int \<lfloor>n\<rfloor> = n
          then num (ipow (val s m) (\<lfloor>val t n\<rfloor>))
          else NaN
      | _ \<Rightarrow> NaN)"

section \<open>The watermark line\<close>

text \<open>
  The camera glyph U+1F4F7 is the surrogate pair D83D DCF7; the bullet is U+25CF.
\<close>

definition camera :: jsstring where
  "camera = [0xD83D, 0xDCF7]"

definition bullet :: jsstring where
  "bullet = [0x25CF]"

definition separator :: jsstring where
  "separator = js ''   ''"

text \<open>
  \<^verbatim>\<open>filter(Boolean)\<close> keeps the truthy entries of \<^verbatim>\<open>parts\<close>: \<^verbatim>\<open>null\<close> (here
  \<open>None\<close>) and the empty string are dropped.
\<close>

definition parts :: "exif \<Rightarrow> jsstring option list" where
  "parts exifInfo =
     [ Some (camera @ js '' '' @ model exifInfo),
       (if fNumber exifInfo \<noteq> [] then Some (bullet @ js '' f/'' @ fNumber exifInfo) else None),
       (if exposure exifInfo \<noteq> [] then Some (bullet @ js '' '' @ exposure exifInfo) else None),
       (if iso exifInfo \<noteq> [] then Some (bullet @ js '' ISO '' @ iso exifInfo) else None) ]"

definition watermark_text :: "exif \<Rightarrow> jsstring" where
  "watermark_text exifInfo = join separator (map the (filter truthy (parts exifInfo)))"

text \<open>
  The fragment list as the specification words it: the model fragment always, then one
  fragment for each of f-number, exposure and ISO that is not empty.
\<close>

definition spec_fragments :: "exif \<Rightarrow> jsstring list" where
  "spec_fragments r =
     [camera @ js '' '' @ model r]
     @ (if fNumber r = [] then [] else [bullet @ js '' f/'' @ fNumber r])
     @ (if exposure r = [] then [] else [bullet @ js '' '' @ exposure r])
     @ (if iso r = [] then [] else [bullet @ js '' ISO '' @ iso r])"

section \<open>The watermark geometry and command line\<close>

text \<open>
  The geometry of the bar. An argument left out of a call is \<^verbatim>\<open>undefined\<close> (\<open>None\<close>),
  which is NaN in arithmetic and the word \<^verbatim>\<open>undefined\<close> in a template literal.
\<close>

fun to_num :: "jsnum option \<Rightarrow> jsnum" where
  "to_num None = NaN"
| "to_num (Some x) = x"

fun to_str :: "jsnum option \<Rightarrow> jsstring" where
  "to_str None = js ''undefined''"
| "to_str (Some x) = ToString x"

definition pointSize :: "jsnum option \<Rightarrow> jsnum option \<Rightarrow> jsnum" where
  "pointSize pointSizeOverride w =
     (case pointSizeOverride of
        Some p \<Rightarrow> if truthy_num p then p
                  else Math_max (Fin False 14) (Math_round (multiply (to_num w) (num (28 / 1000))))
      | None \<Rightarrow> Math_max (Fin False 14) (Math_round (multiply (to_num w) (num (28 / 1000)))))"

definition barHeight :: "jsnum \<Rightarrow> jsnum" where
  "barHeight ps = Math_max (Fin False 50) (Math_round (multiply ps (num (22 / 10))))"

definition barTop :: "jsnum option \<Rightarrow> jsnum \<Rightarrow> jsnum" where
  "barTop h bh = Math_max (Fin False 0) (subtract (to_num h) bh)"

text \<open>The command line of the compositing step; quotes and backslashes of the text are escaped.\<close>

definition quoted :: "jsstring \<Rightarrow> jsstring" where
  "quoted p = [34] @ p @ [34]"

definition escape_text :: "jsstring \<Rightarrow> jsstring" where
  "escape_text t = concat (map (\<lambda>c. if c = 34 \<or> c = 92 then [92, c] else [c]) t)"

definition watermark_cmd ::
  "jsstring \<Rightarrow> jsstring \<Rightarrow> exif \<Rightarrow> jsnum option \<Rightarrow> jsnum option \<Rightarrow> jsnum option \<Rightarrow> jsstring" where
  "watermark_cmd inputPath outputPath exifInfo pointSizeOverride w h =
     (let ps = pointSize pointSizeOverride w; bh = barHeight ps; y0 = barTop h bh
      in join (js '' '')
           [js ''magick'',
            quoted inputPath,
            js ''-fill '' @ quoted (js ''#00000080''),
            js ''-draw '' @ quoted (js ''rectangle 0,'' @ ToString y0 @ js '' '' @ to_str w @ js '','' @ to_str h),
            js ''-gravity southwest'',
            js ''-pointsize '' @ ToString ps,
            js ''-kerning 1'',
            js ''-fill white'',
            js ''-annotate +20+'' @ ToString (Math_round (multiply bh (num (35 / 100)))) @ js '' ''
              @ quoted (escape_text (watermark_text exifInfo)),
            quoted outputPath])"

section \<open>The world: files, the image tool, the log\<close>

text \<open>
  The state the task works on: the files (path to content) and directories, the command
  lines handed to \<^verbatim>\<open>execAsync\<close> so far, and the lines logged so far. The image tool
  is a parameter \<open>tool\<close>: given a command line and the world, it fails with a message
  or answers with its standard output, and leaves the files as it likes.

  An action returns \<open>Inl\<close> of the thrown error or \<open>Inr\<close> of its value, with the world
  after it; the effects of a failed action stay. On this flat file system a write always
  succeeds; a copy fails when its source is missing, a deletion when its file is.
\<close>

datatype level = Info | Warn | Err

datatype exn = Error (message: jsstring)

record world =
  files :: "jsstring \<rightharpoonup> jsstring"
  dirs :: "jsstring set"
  cmds :: "jsstring list"
  logs :: "(level \<times> jsstring) list"

type_synonym tool = "jsstring \<Rightarrow> world \<Rightarrow> (jsstring + jsstring) \<times> (jsstring \<rightharpoonup> jsstring)"

type_synonym 'a action = "world \<Rightarrow> (exn + 'a) \<times> world"

definition ret :: "'a \<Rightarrow> 'a action" where
  "ret x w = (Inr x, w)"

definition throw :: "exn \<Rightarrow> 'a action" where
  "throw e w = (Inl e, w)"

definition and_then :: "'a action \<Rightarrow> ('a \<Rightarrow> 'b action) \<Rightarrow> 'b action" where
  "and_then m f w = (case m w of (Inl e, w') \<Rightarrow> (Inl e, w') | (Inr x, w') \<Rightarrow> f x w')"

definition then_do :: "'a action \<Rightarrow> 'b action \<Rightarrow> 'b action" where
  "then_do m n = and_then m (\<lambda>x. n)"

definition try_catch :: "'a action \<Rightarrow> (exn \<Rightarrow> 'a action) \<Rightarrow> 'a action" where
  "try_catch m h w = (case m w of (Inl e, w') \<Rightarrow> h e w' | (Inr x, w') \<Rightarrow> (Inr x, w'))"

definition step :: "(world \<Rightarrow> world) \<Rightarrow> unit action" where
  "step f w = (Inr (), f w)"

definition execAsync :: "tool \<Rightarrow> jsstring \<Rightarrow> jsstring action" where
  "execAsync tool cmd w =
     (case tool cmd w of
        (Inl msg, fs) \<Rightarrow> (Inl (Error msg), w\<lparr>files := fs, cmds := cmds w @ [cmd]\<rparr>)
      | (Inr stdout, fs) \<Rightarrow> (Inr stdout, w\<lparr>files := fs, cmds := cmds w @ [cmd]\<rparr>))"

definition log :: "level \<Rightarrow> jsstring \<Rightarrow> world \<Rightarrow> world" where
  "log l msg w = w\<lparr>logs := logs w @ [(l, msg)]\<rparr>"

definition existsSync :: "jsstring \<Rightarrow> world \<Rightarrow> bool" where
  "existsSync p w = (p \<in> dom (files w) \<or> p \<in> dirs w)"

definition mkdirSync :: "jsstring \<Rightarrow> world \<Rightarrow> world" where
  "mkdirSync p w = w\<lparr>dirs := insert p (dirs w)\<rparr>"

definition writeFileSync :: "jsstring \<Rightarrow> jsstring \<Rightarrow> world \<Rightarrow> world" where
  "writeFileSync p d w = w\<lparr>files := (files w)(p \<mapsto> d)\<rparr>"

definition copyFileSync :: "jsstring \<Rightarrow> jsstring \<Rightarrow> unit action" where
  "copyFileSync src dst w =
     (case files w src of
        None \<Rightarrow> (Inl (Error (js ''ENOENT: no such file or directory, copyfile '' @ src)), w)
      | Some d \<Rightarrow> (Inr (), w\<lparr>files := (files w)(dst \<mapsto> d)\<rparr>))"

definition unlinkSync :: "jsstring \<Rightarrow> unit action" where
  "unlinkSync p w =
     (if p \<in> dom (files w) then (Inr (), w\<lparr>files := (files w)(p := None)\<rparr>)
      else (Inl (Error (js ''ENOENT: no such file or directory, unlink '' @ p)), w))"

text \<open>A \<^verbatim>\<open>for ... of\<close> loop, or \<^verbatim>\<open>forEach\<close>, whose body is an action.\<close>

fun forEach :: "('a \<Rightarrow> unit action) \<Rightarrow> 'a list \<Rightarrow> unit action" where
  "forEach f [] = ret ()"
| "forEach f (x # xs) = then_do (f x) (forEach f xs)"

section \<open>The steps that call the image tool\<close>

definition ensureMagick :: "tool \<Rightarrow> unit action" where
  "ensureMagick tool =
     try_catch (then_do (execAsync tool (js ''magick -version'')) (ret ()))
       (\<lambda>e. throw (Error ([0x274C] @ js '' ImageMagick not found. Install it and ensure `magick` is on PATH.'')))"

definition readExif_cmd :: "jsstring \<Rightarrow> jsstring" where
  "readExif_cmd origPath = js ''magick identify -format '' @ quoted fmt @ js '' '' @ quoted origPath"

definition readExif :: "tool \<Rightarrow> power \<Rightarrow> jsstring \<Rightarrow> exif action" where
  "readExif tool pow origPath =
     and_then (execAsync tool (readExif_cmd origPath)) (\<lambda>stdout. ret (readExif_record pow stdout))"

text \<open>\<^verbatim>\<open>s.split(/\s+/)\<close>: the pieces between runs of white space.\<close>

fun split_ws :: "jsstring \<Rightarrow> jsstring list" where
  "split_ws [] = [[]]"
| "split_ws (c # cs) =
     (if is_ws c then
        (case cs of
           [] \<Rightarrow> [] # split_ws cs
         | d # ds \<Rightarrow> if is_ws d then split_ws cs else [] # split_ws cs)
      else (case split_ws cs of [] \<Rightarrow> [[c]] | p # ps \<Rightarrow> (c # p) # ps))"

definition imageDims_cmd :: "jsstring \<Rightarrow> jsstring" where
  "imageDims_cmd p = js ''magick identify -format '' @ quoted (js ''%w %h'') @ js '' '' @ quoted p"

definition imageDims :: "tool \<Rightarrow> jsstring \<Rightarrow> (jsnum option \<times> jsnum option) action" where
  "imageDims tool p =
     and_then (execAsync tool (imageDims_cmd p))
       (\<lambda>stdout. let ns = map Number (split_ws (trim (if stdout = [] then js ''0 0'' else stdout)))
                 in ret (nth_opt ns 0, nth_opt ns 1))"

definition addWatermark :: "tool \<Rightarrow> jsstring \<Rightarrow> jsstring \<Rightarrow> exif \<Rightarrow> jsnum option \<Rightarrow> unit action" where
  "addWatermark tool inputPath outputPath exifInfo pointSizeOverride =
     and_then (imageDims tool inputPath)
       (\<lambda>d. then_do
          (execAsync tool (watermark_cmd inputPath outputPath exifInfo pointSizeOverride (fst d) (snd d)))
          (ret ()))"

section \<open>The task \<^verbatim>\<open>resize-images\<close>\<close>

text \<open>
  \<^verbatim>\<open>path.join(dir, file)\<close> for a directory entry \<open>file\<close>, with the separator of POSIX.
\<close>

definition path_join :: "jsstring \<Rightarrow> jsstring \<Rightarrow> jsstring" where
  "path_join d f = d @ js ''/'' @ f"

definition orig :: "jsstring \<Rightarrow> jsstring" where
  "orig file = path_join (js ''images'') file"

definition temp :: "jsstring \<Rightarrow> jsstring" where
  "temp file = path_join (js ''images'') (js ''temp_'' @ file)"

definition outFull :: "jsstring \<Rightarrow> jsstring" where
  "outFull file = path_join (js ''images/fulls'') file"

definition outThumb :: "jsstring \<Rightarrow> jsstring" where
  "outThumb file = path_join (js ''images/thumbs'') file"

definition tempFull :: "jsstring \<Rightarrow> jsstring" where
  "tempFull file = path_join (js ''images'') (js ''temp_full_'' @ file)"

definition tempThumb :: "jsstring \<Rightarrow> jsstring" where
  "tempThumb file = path_join (js ''images'') (js ''temp_thumb_'' @ file)"

text \<open>The command lines of the two paths.\<close>

definition verify_cmd :: "jsstring \<Rightarrow> jsstring" where
  "verify_cmd file = js ''magick identify -verbose '' @ quoted (orig file)"

definition normalise_cmd :: "jsstring \<Rightarrow> jsstring" where
  "normalise_cmd file = js ''magick '' @ quoted (orig file) @ js '' -auto-orient -strip '' @ quoted (temp file)"

definition resize_full_cmd :: "jsstring \<Rightarrow> jsstring" where
  "resize_full_cmd file = js ''magick '' @ quoted (temp file) @ js '' -resize 1024x1024 '' @ quoted (tempFull file)"

definition resize_thumb_cmd :: "jsstring \<Rightarrow> jsstring" where
  "resize_thumb_cmd file = js ''magick '' @ quoted (temp file) @ js '' -resize 512x512 '' @ quoted (tempThumb file)"

definition direct_full_cmd :: "jsstring \<Rightarrow> jsstring" where
  "direct_full_cmd file =
     js ''magick '' @ quoted (orig file) @ js '' -resize 1024x1024 -quality 80 '' @ quoted (outFull file)"

definition direct_thumb_cmd :: "jsstring \<Rightarrow> jsstring" where
  "direct_thumb_cmd file =
     js ''magick '' @ quoted (orig file) @ js '' -resize 512x512  -quality 70 '' @ quoted (outThumb file)"

text \<open>The body of the outer \<^verbatim>\<open>try\<close>: steps 1 to 4 of the source.\<close>

definition primary :: "tool \<Rightarrow> power \<Rightarrow> jsstring \<Rightarrow> unit action" where
  "primary tool pow file =
     and_then (readExif tool pow (orig file)) (\<lambda>exif.
       then_do (execAsync tool (verify_cmd file))
      (then_do (execAsync tool (normalise_cmd file))
      (then_do (execAsync tool (resize_full_cmd file))
      (then_do (execAsync tool (resize_thumb_cmd file))
      (then_do (addWatermark tool (tempFull file) (outFull file) exif None)
      (then_do (copyFileSync (tempThumb file) (outThumb file))
      (then_do (forEach (\<lambda>p w. if existsSync p w then unlinkSync p w else (Inr (), w))
                  [temp file, tempFull file, tempThumb file])
               (step (log Info ([0x2705] @ js '' Done: '' @ file))))))))))"

text \<open>The body of the inner \<^verbatim>\<open>try\<close>.\<close>

definition fallback :: "tool \<Rightarrow> power \<Rightarrow> jsstring \<Rightarrow> unit action" where
  "fallback tool pow file =
     and_then (readExif tool pow (orig file)) (\<lambda>exif.
       then_do (step (log Warn ([0x26A0, 0xFE0F] @ js '' Fallback (direct resize + watermark) for ''
                                  @ file @ js ''...'')))
      (then_do (execAsync tool (direct_full_cmd file))
      (then_do (execAsync tool (direct_thumb_cmd file))
      (then_do (addWatermark tool (outFull file) (outFull file) exif None)
      (then_do (addWatermark tool (outThumb file) (outThumb file) exif (Some (Fin False 14)))
               (step (log Info ([0x2705] @ js '' Fallback succeeded: '' @ file))))))))"

text \<open>The text written in place of both outputs when the fallback fails too.\<close>

definition placeholder :: "jsstring \<Rightarrow> exn \<Rightarrow> jsstring" where
  "placeholder file err = js ''ERROR PROCESSING: '' @ file @ [10] @ message err"

text \<open>The body of the loop, for one file.\<close>

definition process_file :: "tool \<Rightarrow> power \<Rightarrow> jsstring \<Rightarrow> unit action" where
  "process_file tool pow file =
     then_do (step (log Info (js ''Processing '' @ file @ js ''...'')))
       (try_catch (primary tool pow file) (\<lambda>err.
          then_do (step (log Err ([0x274C] @ js '' Failed to process '' @ file @ js '': '' @ message err)))
            (try_catch (fallback tool pow file) (\<lambda>fallbackErr.
               then_do (step (log Err ([0x274C] @ js '' Fallback failed for '' @ file @ js '': ''
                                         @ message fallbackErr)))
              (then_do (step (writeFileSync (outFull file) (placeholder file err)))
                       (step (writeFileSync (outThumb file) (placeholder file err))))))))"

text \<open>
  The filter on the directory entries, \<^verbatim>\<open>/\.(jpg|jpeg|png|gif|webp)$/i\<close>: the name ends
  with a dot and one of the five extensions, in either case of the ASCII letters.
\<close>

definition lower :: "nat \<Rightarrow> nat" where
  "lower c = (if 65 \<le> c \<and> c \<le> 90 then c + 32 else c)"

definition ends_with :: "jsstring \<Rightarrow> jsstring \<Rightarrow> bool" where
  "ends_with suffix s = (length suffix \<le> length s \<and> drop (length s - length suffix) s = suffix)"

definition is_image :: "jsstring \<Rightarrow> bool" where
  "is_image f = (\<exists>e \<in> set [js ''.jpg'', js ''.jpeg'', js ''.png'', js ''.gif'', js ''.webp''].
                   ends_with e (map lower f))"

text \<open>
  The task. \<open>entries\<close> is what \<^verbatim>\<open>fs.readdirSync('images')\<close> returns.
\<close>

definition resize_images :: "tool \<Rightarrow> power \<Rightarrow> jsstring list \<Rightarrow> unit action" where
  "resize_images tool pow entries =
     then_do (ensureMagick tool) (\<lambda>w.
       if \<not> existsSync (js ''images'') w
       then step (log Err ([0x274C] @ js '' Images directory missing'')) w
       else (let fs = filter is_image entries
             in if length fs = 0
                then step (log Warn ([0x26A0, 0xFE0F] @ js '' No images found in images/ directory'')) w
                else then_do (step (log Info ([0xD83D, 0xDD04] @ js '' Processing ''
                                                @ digits_of (int (length fs)) @ js '' images...'')))
                    (then_do (step (\<lambda>v. if existsSync (js ''images/fulls'') v then v
                                          else mkdirSync (js ''images/fulls'') v))
                    (then_do (step (\<lambda>v. if existsSync (js ''images/thumbs'') v then v
                                          else mkdirSync (js ''images/thumbs'') v))
                             (forEach (process_file tool pow) fs))) w))"

section \<open>The task as \<^verbatim>\<open>src/gulpfile.js\<close> has it\<close>

text \<open>
  The earlier version of the task: no metadata and no watermark, the tools
  \<^verbatim>\<open>identify\<close> and \<^verbatim>\<open>convert\<close>, the resized images written straight to their
  destinations, the normalised copy deleted without a check that it exists. The paths
  are the same as above.
\<close>

definition legacy_verify_cmd :: "jsstring \<Rightarrow> jsstring" where
  "legacy_verify_cmd file = js ''identify -verbose '' @ quoted (orig file)"

definition legacy_normalise_cmd :: "jsstring \<Rightarrow> jsstring" where
  "legacy_normalise_cmd file =
     js ''convert '' @ quoted (orig file) @ js '' -auto-orient -strip '' @ quoted (temp file)"

definition legacy_full_cmd :: "jsstring \<Rightarrow> jsstring \<Rightarrow> jsstring" where
  "legacy_full_cmd src file =
     js ''convert '' @ quoted src @ js '' -resize 1024x1024 -quality 80 '' @ quoted (outFull file)"

definition legacy_thumb_cmd :: "jsstring \<Rightarrow> jsstring \<Rightarrow> jsstring" where
  "legacy_thumb_cmd src file =
     js ''convert '' @ quoted src @ js '' -resize 512x512 -quality 70 '' @ quoted (outThumb file)"

definition legacy_primary :: "tool \<Rightarrow> jsstring \<Rightarrow> unit action" where
  "legacy_primary tool file =
      then_do (execAsync tool (legacy_verify_cmd file))
     (then_do (step (log Info ([0x2705] @ js '' Verified: '' @ file)))
     (then_do (execAsync tool (legacy_normalise_cmd file))
     (then_do (execAsync tool (legacy_full_cmd (temp file) file))
     (then_do (step (log Info ([0x2705] @ js '' Created full size: '' @ file)))
     (then_do (execAsync tool (legacy_thumb_cmd (temp file) file))
     (then_do (step (log Info ([0x2705] @ js '' Created thumbnail: '' @ file)))
              (unlinkSync (temp file))))))))"

definition legacy_fallback :: "tool \<Rightarrow> jsstring \<Rightarrow> unit action" where
  "legacy_fallback tool file =
      then_do (step (log Warn ([0x26A0, 0xFE0F] @ js '' Trying fallback method for '' @ file @ js ''...'')))
     (then_do (execAsync tool (legacy_full_cmd (orig file) file))
     (then_do (execAsync tool (legacy_thumb_cmd (orig file) file))
              (step (log Info ([0x2705] @ js '' Fallback succeeded for '' @ file)))))"

definition legacy_process_file :: "tool \<Rightarrow> jsstring \<Rightarrow> unit action" where
  "legacy_process_file tool file =
     then_do (step (log Info (js ''Processing '' @ file @ js ''...'')))
       (try_catch (legacy_primary tool file) (\<lambda>err.
          then_do (step (log Err ([0x274C] @ js '' Failed to process '' @ file @ js '': '' @ message err)))
            (try_catch (legacy_fallback tool file) (\<lambda>fallbackErr.
               then_do (step (log Err ([0x274C] @ js '' Fallback failed for '' @ file @ js '': ''
                                         @ message fallbackErr)))
              (then_do (step (writeFileSync (outFull file) (placeholder file err)))
                       (step (writeFileSync (outThumb file) (placeholder file err))))))))"

definition legacy_resize_images :: "tool \<Rightarrow> jsstring list \<Rightarrow> unit action" where
  "legacy_resize_images tool entries w =
     (if \<not> existsSync (js ''images'') w
      then step (log Err ([0x274C] @ js '' Images directory missing'')) w
      else (let fs = filter is_image entries
            in if length fs = 0
               then step (log Warn ([0x26A0, 0xFE0F] @ js '' No images found in images/ directory'')) w
               else then_do (step (log Info ([0xD83D, 0xDD04] @ js '' Processing ''
                                               @ digits_of (int (length fs)) @ js '' images...'')))
                   (then_do (step (\<lambda>v. if existsSync (js ''images/fulls'') v then v
                                         else mkdirSync (js ''images/fulls'') v))
                   (then_do (step (\<lambda>v. if existsSync (js ''images/thumbs'') v then v
                                         else mkdirSync (js ''images/thumbs'') v))
                   (then_do (forEach (legacy_process_file tool) fs)
                            (step (log Info ([0xD83C, 0xDF89] @ js '' Finished processing all images'')))))) w))"

text \<open>
  A tool for the earlier version and the file \<^verbatim>\<open>a.jpg\<close>: the verification succeeds, the
  normalisation writes its copy, every other command fails.
\<close>

definition legacy_tool_normalises :: tool where
  "legacy_tool_normalises cmd w =
     (if cmd = legacy_verify_cmd (js ''a.jpg'')
      then (Inr [], files w)
      else if cmd = legacy_normalise_cmd (js ''a.jpg'')
      then (Inr [], (files w)(temp (js ''a.jpg'') \<mapsto> js ''stripped''))
      else (Inl (js ''Command failed''), files w))"

section \<open>Sample worlds and tools\<close>

text \<open>
  Concrete inputs on which the model is run: an empty world, a tool that always fails,
  one that always succeeds with empty output and writes nothing, one that succeeds and
  leaves a file at a given path, and one for the file \<^verbatim>\<open>a.jpg\<close> that answers the
  metadata query and the verification, writes the normalised copy, and fails on every
  other command.
\<close>

definition world0 :: world where
  "world0 = \<lparr>files = Map.empty, dirs = {}, cmds = [], logs = []\<rparr>"




definition tool_normalises :: tool where
  "tool_normalises cmd w =
     (if cmd = readExif_cmd (orig (js ''a.jpg'')) \<or> cmd = verify_cmd (js ''a.jpg'')
      then (Inr [], files w)
      else if cmd = normalise_cmd (js ''a.jpg'')
      then (Inr [], (files w)(temp (js ''a.jpg'') \<mapsto> js ''stripped''))
      else (Inl (js ''Command failed''), files w))"

section \<open>Predicates of the statements and proofs\<close>


text \<open>The command lines added to the record of a world by an action.\<close>

definition new_cmds :: "world \<Rightarrow> world \<Rightarrow> jsstring list" where
  "new_cmds w w' = drop (length (cmds w)) (cmds w')"


text \<open>
  \<open>issues Q n m\<close>: whatever the world and the tool's answers, the action \<open>m\<close> only
  appends command lines to the record, at most \<open>n\<close> of them, each satisfying \<open>Q\<close>.
\<close>

definition issues :: "(jsstring \<Rightarrow> bool) \<Rightarrow> nat \<Rightarrow> 'a action \<Rightarrow> bool" where
  "issues Q n m = (\<forall>w r w'. m w = (r, w') \<longrightarrow>
      (\<exists>new. cmds w' = cmds w @ new \<and> list_all Q new \<and> length new \<le> n))"

section \<open>Properties of the watermark line\<close>

text \<open>
  Claim C5. For every metadata record the watermark text is the join, by the three-space
  separator, of the fragments that are present, in order: the camera glyph and the model
  always, then the f-number, the exposure and the ISO fragment, each exactly when its
  field is not empty. An empty field contributes nothing.
\<close>

theorem watermark_text_present_only:
  "watermark_text r = join separator (spec_fragments r)"
  by (simp add: watermark_text_def parts_def spec_fragments_def camera_def)

theorem watermark_text_present_only_witness:
  "watermark_text \<lparr>model = js ''Camera'', fNumber = [], exposure = js ''1/200'', iso = js ''400''\<rparr>
     = camera @ js '' Camera'' @ separator @ bullet @ js '' 1/200'' @ separator @ bullet @ js '' ISO 400''"
  using watermark_text_present_only
    [of "\<lparr>model = js ''Camera'', fNumber = [], exposure = js ''1/200'', iso = js ''400''\<rparr>"]
  by (simp add: spec_fragments_def js_def)

section \<open>Running the model on numerals\<close>

text \<open>
  Equations that let the simplifier compute the recursive functions on numerals, and
  the definitions to unfold when a concrete input is evaluated.
\<close>

lemma floor_rat_numeral_div [simp]: "\<lfloor>(numeral a :: rat) / numeral b\<rfloor> = numeral a div numeral b"
  using floor_divide_of_int_eq [of "numeral a" "numeral b", where ?'a = rat] by simp

lemma bits_0 [simp]: "bits 0 = 0"
  by (simp add: bits.simps)

lemma bits_1 [simp]: "bits 1 = 1"
  by (simp add: bits.simps)

lemma bits_numeral [simp]: "bits (numeral n) = 1 + bits (numeral n div 2)"
  by (subst bits.simps) simp

lemma digits_of_0 [simp]: "digits_of 0 = [48]"
  by (simp add: digits_of.simps)

lemma digits_of_1 [simp]: "digits_of 1 = [49]"
  by (simp add: digits_of.simps)

lemma digits_of_numeral [simp]:
  "digits_of (numeral n) =
     (if (numeral n :: int) < 10 then [48 + nat (numeral n)]
      else digits_of (numeral n div 10) @ [48 + nat (numeral n mod 10)])"
  by (subst digits_of.simps) simp

lemmas eval_num = num_def rnd_def ilog2_def ipow_def round_even_def val_def Let_def power_divide

lemmas eval_parse = is_ws_def trim_def is_digit_def digit_val_def is_digit_in_def digits_val_def
  ExponentPart_def StrUnsignedDecimalLiteral_def StrDecimalLiteral_def
  NonDecimalIntegerLiteral_def Number_def js_def

lemmas eval_print = ilog10_def try_digits_def shortest_def strip_zeros_def render_def strip_dot0_def

lemmas eval_exif = plain_number_def includes_char_def tag_values_def nth_opt_def
  fNumber_from_aperture_def fNumber_from_rational_def one_over_def fraction_or_seconds_def
  fraction_or_plain_def exposure_from_shutter_def exposure_reformat_def readExif_record_def
  pow_sample_def SQRT2_def


subsection \<open>The characters of a rendered number\<close>

lemma or_else_Some_Nil: "or_else (Some x) [] = x"
  by simp











subsection \<open>A string that ends in the letter s is not a numeral\<close>













section \<open>Properties of the metadata reader\<close>






text \<open>
  Claim C3 against the code. The direct exposure time "2.25" has no slash and is the
  finite number 2.25, not below 1. By the rule of the first block, which the claim
  states, it would be written to one decimal place, "2.3s"; the record has "2.25s",
  because the second block writes the number with \<^verbatim>\<open>String\<close>, not with
  \<^verbatim>\<open>toFixed(1)\<close>.
\<close>

theorem exposure_bare_number_not_rounded:
  "exposure_from_shutter pow_sample (nth_opt (tag_values (js ''|||2.25|||'')) 3)
       (nth_opt (tag_values (js ''|||2.25|||'')) 4) = Some (js ''2.25'')
   \<and> \<not> includes_char 47 (js ''2.25'')
   \<and> Number (js ''2.25'') = Fin False (9 / 4)
   \<and> \<not> less_than (Fin False (9 / 4)) (Fin False 1)
   \<and> strip_dot0 (toFixed1 (Fin False (9 / 4))) @ js ''s'' = js ''2.3s''
   \<and> exposure (readExif_record pow_sample (js ''|||2.25|||'')) = js ''2.25s''"
  by (simp add: eval_num eval_parse eval_print eval_exif)

text \<open>
  What the second block does in general: whenever the exposure value resolved so far is
  not empty, contains no slash and converts to a finite number \<open>t\<close>, the exposure of the
  record is "1/" followed by \<^verbatim>\<open>Math.round(1 / t)\<close> when \<open>t < 1\<close>, and otherwise \<open>t\<close> as
  \<^verbatim>\<open>String\<close> writes it, followed by "s".
\<close>

lemma exposure_bare_number:
  "exposure_from_shutter pow (nth_opt (tag_values out) 3) (nth_opt (tag_values out) 4) = Some e
   \<and> e \<noteq> [] \<and> \<not> includes_char 47 e \<and> isFinite (Number e)
   \<longrightarrow> (less_than (Number e) (Fin False 1)
         \<longrightarrow> exposure (readExif_record pow out)
             = js ''1/'' @ ToString (Math_round (divide_num (Fin False 1) (Number e))))
     \<and> (\<not> less_than (Number e) (Fin False 1)
         \<longrightarrow> exposure (readExif_record pow out) = ToString (Number e) @ js ''s'')"
  by (simp add: readExif_record_def Let_def exposure_reformat_def fraction_or_plain_def one_over_def js_def)

lemma exposure_bare_number_instances:
  "(exposure_from_shutter pow_sample (nth_opt (tag_values (js ''|||0.25|||'')) 3)
       (nth_opt (tag_values (js ''|||0.25|||'')) 4) = Some (js ''0.25'')
    \<and> js ''0.25'' \<noteq> [] \<and> \<not> includes_char 47 (js ''0.25'') \<and> isFinite (Number (js ''0.25''))
    \<and> less_than (Number (js ''0.25'')) (Fin False 1)
    \<and> exposure (readExif_record pow_sample (js ''|||0.25|||'')) = js ''1/4'')
   \<and> (exposure_from_shutter pow_sample (nth_opt (tag_values (js ''|||2.25|||'')) 3)
       (nth_opt (tag_values (js ''|||2.25|||'')) 4) = Some (js ''2.25'')
    \<and> js ''2.25'' \<noteq> [] \<and> \<not> includes_char 47 (js ''2.25'') \<and> isFinite (Number (js ''2.25''))
    \<and> \<not> less_than (Number (js ''2.25'')) (Fin False 1)
    \<and> exposure (readExif_record pow_sample (js ''|||2.25|||'')) = js ''2.25s'')"
proof -
  have n1: "Number (js ''0.25'') = Fin False (1 / 4)"
    by (simp add: eval_num eval_parse)
  have n2: "Number (js ''2.25'') = Fin False (9 / 4)"
    by (simp add: eval_num eval_parse)
  have h1: "exposure_from_shutter pow_sample (nth_opt (tag_values (js ''|||0.25|||'')) 3)
       (nth_opt (tag_values (js ''|||0.25|||'')) 4) = Some (js ''0.25'')
    \<and> js ''0.25'' \<noteq> [] \<and> \<not> includes_char 47 (js ''0.25'')"
    by (simp add: eval_parse eval_exif)
  have h2: "exposure_from_shutter pow_sample (nth_opt (tag_values (js ''|||2.25|||'')) 3)
       (nth_opt (tag_values (js ''|||2.25|||'')) 4) = Some (js ''2.25'')
    \<and> js ''2.25'' \<noteq> [] \<and> \<not> includes_char 47 (js ''2.25'')"
    by (simp add: eval_parse eval_exif)
  have v1: "js ''1/'' @ ToString (Math_round (divide_num (Fin False 1) (Fin False (1 / 4)))) = js ''1/4''"
    by (simp add: eval_num eval_parse eval_print)
  have v2: "ToString (Fin False (9 / 4)) @ js ''s'' = js ''2.25s''"
    by (simp add: eval_num eval_parse eval_print)
  show ?thesis
    using exposure_bare_number [of pow_sample "js ''|||0.25|||''" "js ''0.25''"]
      exposure_bare_number [of pow_sample "js ''|||2.25|||''" "js ''2.25''"]
      h1 h2 n1 n2 v1 v2
    by (simp add: val_def)
qed

lemma rationalToFloat_plain_finite:
  "\<not> includes_char 47 s \<Longrightarrow> rationalToFloat (Some s) = Some n \<Longrightarrow> isFinite n"
  by (auto simp: plain_number_def Let_def split: if_splits)

lemma rationalToFloat_zero_denominator:
  "rationalToFloat (Some (js ''3/0'')) = None"
  by (simp add: eval_num eval_parse eval_exif)

text \<open>
  Claim C10 against the code. \<^verbatim>\<open>rationalToFloat\<close> is a total function, and without a
  slash it returns \<^verbatim>\<open>null\<close> or a finite number; a zero denominator falls through to
  the conversion of the whole string and gives \<^verbatim>\<open>null\<close>. With a slash and a truthy
  denominator, however, the quotient is returned unchecked: for "x/1" it is NaN.
\<close>

theorem rationalToFloat_NaN_numerator:
  "rationalToFloat (Some (js ''x/1'')) = Some NaN"
  by (simp add: eval_num eval_parse eval_exif)

subsection \<open>Running the actions on concrete worlds\<close>

lemmas eval_paths = path_join_def orig_def temp_def tempFull_def tempThumb_def outFull_def
  outThumb_def

lemma path_lengths:
  "length (orig f) = 7 + length f"
  "length (temp f) = 12 + length f"
  "length (tempFull f) = 17 + length f"
  "length (tempThumb f) = 18 + length f"
  "length (outFull f) = 13 + length f"
  "length (outThumb f) = 14 + length f"
  by (simp_all add: eval_paths js_def)

lemma neq_by_length: "length a \<noteq> length b \<Longrightarrow> a \<noteq> b"
  by auto

lemma paths_distinct:
  "temp f \<noteq> orig f" "tempFull f \<noteq> orig f" "tempThumb f \<noteq> orig f"
  "temp f \<noteq> tempFull f" "temp f \<noteq> tempThumb f" "tempFull f \<noteq> tempThumb f"
  "tempFull f \<noteq> temp f" "tempThumb f \<noteq> temp f" "tempThumb f \<noteq> tempFull f"
  "outFull f \<noteq> temp f" "outThumb f \<noteq> temp f" "temp f \<noteq> outFull f" "temp f \<noteq> outThumb f"
  "outFull f \<noteq> tempThumb f" "outThumb f \<noteq> tempThumb f"
  by (rule neq_by_length, simp add: path_lengths)+

lemmas eval_action = ret_def throw_def and_then_def then_do_def try_catch_def step_def
  execAsync_def log_def existsSync_def writeFileSync_def copyFileSync_def unlinkSync_def
  readExif_def imageDims_def addWatermark_def primary_def fallback_def process_file_def Let_def

subsection \<open>When the metadata query fails\<close>




section \<open>Properties of the watermark geometry\<close>









section \<open>Properties of the task\<close>

subsection \<open>The command lines an action issues\<close>

lemma issuesI:
  assumes "\<And>w r w'. m w = (r, w') \<Longrightarrow> \<exists>new. cmds w' = cmds w @ new \<and> list_all Q new \<and> length new \<le> n"
  shows "issues Q n m"
  using assms unfolding issues_def by blast

lemma issuesD:
  assumes "issues Q n m" and "m w = (r, w')"
  shows "\<exists>new. cmds w' = cmds w @ new \<and> list_all Q new \<and> length new \<le> n"
  using assms unfolding issues_def by blast

lemma issues_mono: "issues Q n m \<Longrightarrow> n \<le> n' \<Longrightarrow> issues Q n' m"
  unfolding issues_def by (meson order_trans)


lemma issues_throw: "issues Q 0 (throw e)"
  by (rule issuesI) (auto simp: throw_def)

lemma issues_step: "(\<And>w. cmds (f w) = cmds w) \<Longrightarrow> issues Q 0 (step f)"
  by (rule issuesI) (auto simp: step_def)

lemma issues_exec: "Q c \<Longrightarrow> issues Q 1 (execAsync tool c)"
  by (rule issuesI) (auto simp: execAsync_def split: prod.splits sum.splits)

lemma issues_and_then:
  assumes m: "issues Q a m" and f: "\<And>x. issues Q b (f x)"
  shows "issues Q (a + b) (and_then m f)"
proof (rule issuesI)
  fix w r w'
  assume run: "and_then m f w = (r, w')"
  obtain r1 w1 where m1: "m w = (r1, w1)" by (cases "m w")
  from issuesD [OF m m1] obtain n1 where
    n1: "cmds w1 = cmds w @ n1" "list_all Q n1" "length n1 \<le> a" by blast
  show "\<exists>new. cmds w' = cmds w @ new \<and> list_all Q new \<and> length new \<le> a + b"
  proof (cases r1)
    case (Inl e)
    then have "w' = w1" using run m1 by (simp add: and_then_def)
    then show ?thesis using n1 by auto
  next
    case (Inr x)
    then have "f x w1 = (r, w')" using run m1 by (simp add: and_then_def)
    from issuesD [OF f this] obtain n2 where
      n2: "cmds w' = cmds w1 @ n2" "list_all Q n2" "length n2 \<le> b" by blast
    have "cmds w' = cmds w @ (n1 @ n2)" using n1 n2 by simp
    moreover have "list_all Q (n1 @ n2)" using n1 n2 by simp
    moreover have "length (n1 @ n2) \<le> a + b" using n1 n2 by simp
    ultimately show ?thesis by blast
  qed
qed

lemma issues_then_do:
  "issues Q a m \<Longrightarrow> issues Q b n \<Longrightarrow> issues Q (a + b) (then_do m n)"
  unfolding then_do_def by (rule issues_and_then)















subsection \<open>One file, and the loop\<close>





lemma new_cmds_bound:
  assumes "issues Q n m"
  shows "length (new_cmds w (snd (m w))) \<le> n"
proof -
  obtain new where "cmds (snd (m w)) = cmds w @ new" "length new \<le> n"
    using issuesD [OF assms, of w "fst (m w)" "snd (m w)"] by auto
  then show ?thesis by (simp add: new_cmds_def)
qed





lemma tool_normalises_query:
  "tool_normalises (readExif_cmd (orig (js ''a.jpg''))) w = (Inr [], files w)"
  by (simp add: tool_normalises_def)

lemma tool_normalises_verify:
  "tool_normalises (verify_cmd (js ''a.jpg'')) w = (Inr [], files w)"
  by (simp add: tool_normalises_def)

lemma tool_normalises_normalise:
  "tool_normalises (normalise_cmd (js ''a.jpg'')) w
     = (Inr [], (files w)(temp (js ''a.jpg'') \<mapsto> js ''stripped''))"
  by (simp add: tool_normalises_def readExif_cmd_def verify_cmd_def normalise_cmd_def js_def quoted_def)

lemma tool_normalises_resize:
  "tool_normalises (resize_full_cmd (js ''a.jpg'')) w = (Inl (js ''Command failed''), files w)"
  by (simp add: tool_normalises_def readExif_cmd_def verify_cmd_def normalise_cmd_def
        resize_full_cmd_def eval_paths quoted_def)
     (simp add: js_def)

lemma tool_normalises_direct:
  "tool_normalises (direct_full_cmd (js ''a.jpg'')) w = (Inl (js ''Command failed''), files w)"
  by (simp add: tool_normalises_def readExif_cmd_def verify_cmd_def normalise_cmd_def
        direct_full_cmd_def eval_paths quoted_def)
     (simp add: js_def)

text \<open>
  Claim C8 against the code. The temporary files are deleted at the end of the
  \<^verbatim>\<open>try\<close> block only. With a tool that writes the normalised copy and then fails on
  the resize, the primary path raises, the fallback fails too and writes the
  placeholders, and the normalised copy \<^verbatim>\<open>images/temp_a.jpg\<close> is still there when the
  processing of the file ends.
\<close>

theorem temp_file_left_behind:
  "fst (primary tool_normalises pow_sample (js ''a.jpg'')
         (log Info (js ''Processing '' @ js ''a.jpg'' @ js ''...'') world0))
     = Inl (Error (js ''Command failed''))
   \<and> fst (process_file tool_normalises pow_sample (js ''a.jpg'') world0) = Inr ()
   \<and> files (snd (process_file tool_normalises pow_sample (js ''a.jpg'') world0)) (outFull (js ''a.jpg''))
       = Some (js ''ERROR PROCESSING: a.jpg'' @ [10] @ js ''Command failed'')
   \<and> files (snd (process_file tool_normalises pow_sample (js ''a.jpg'') world0)) (temp (js ''a.jpg''))
       = Some (js ''stripped'')"
  by (simp add: eval_action world0_def tool_normalises_query tool_normalises_verify
        tool_normalises_normalise tool_normalises_resize tool_normalises_direct paths_distinct
        placeholder_def)
     (simp add: js_def)

subsection \<open>The earlier version of the task\<close>

text \<open>
  The task of \<^verbatim>\<open>src/gulpfile.js\<close> has the same two nested \<^verbatim>\<open>try\<close> blocks. The
  statements of claims C7 and C8 hold of it in the same form: four command lines at most
  on the primary path and two on the fallback path, the same placeholder, and the same
  normalised copy left behind when a step after the normalisation raises.
\<close>

lemma issues_unlinkSync: "issues Q 0 (unlinkSync p)"
  by (rule issuesI) (auto simp: unlinkSync_def split: if_splits)

lemma issues_legacy_primary: "issues (\<lambda>c. True) 4 (legacy_primary tool file)"
proof -
  have "issues (\<lambda>c. True) (1 + (0 + (1 + (1 + (0 + (1 + (0 + 0))))))) (legacy_primary tool file)"
    unfolding legacy_primary_def
    by (intro issues_then_do issues_exec issues_step issues_unlinkSync) (simp_all add: log_def)
  then show ?thesis by (rule issues_mono) simp
qed

lemma issues_legacy_fallback: "issues (\<lambda>c. True) 2 (legacy_fallback tool file)"
proof -
  have "issues (\<lambda>c. True) (0 + (1 + (1 + 0))) (legacy_fallback tool file)"
    unfolding legacy_fallback_def
    by (intro issues_then_do issues_exec issues_step) (simp_all add: log_def)
  then show ?thesis by (rule issues_mono) simp
qed

lemma legacy_process_file_cases:
  "legacy_process_file tool file w =
     (case legacy_primary tool file (log Info (js ''Processing '' @ file @ js ''...'') w) of
        (Inr u, w1) \<Rightarrow> (Inr (), w1)
      | (Inl err, w1) \<Rightarrow>
          (case legacy_fallback tool file
                  (log Err ([0x274C] @ js '' Failed to process '' @ file @ js '': '' @ message err) w1) of
             (Inr u, w2) \<Rightarrow> (Inr (), w2)
           | (Inl fallbackErr, w2) \<Rightarrow>
               (Inr (), writeFileSync (outThumb file) (placeholder file err)
                          (writeFileSync (outFull file) (placeholder file err)
                             (log Err ([0x274C] @ js '' Fallback failed for '' @ file @ js '': ''
                                         @ message fallbackErr) w2)))))"
  by (simp add: legacy_process_file_def then_do_def and_then_def try_catch_def step_def
           split: prod.splits sum.splits)

lemma legacy_process_file_returns: "fst (legacy_process_file tool file w) = Inr ()"
  by (simp add: legacy_process_file_cases split: prod.splits sum.splits)

lemma forEach_legacy_process_file_returns: "fst (forEach (legacy_process_file tool) fs w) = Inr ()"
proof (induction fs arbitrary: w)
  case Nil
  show ?case by (simp add: ret_def)
next
  case (Cons f fs)
  obtain r w1 where p: "legacy_process_file tool f w = (r, w1)"
    by (cases "legacy_process_file tool f w")
  then have "r = Inr ()" using legacy_process_file_returns [of tool f w] by simp
  then show ?case using p Cons [of w1] by (simp add: then_do_def and_then_def)
qed

lemma forEach_legacy_process_file_step:
  "forEach (legacy_process_file tool) (f # fs) w
     = forEach (legacy_process_file tool) fs (snd (legacy_process_file tool f w))"
proof -
  obtain r w1 where p: "legacy_process_file tool f w = (r, w1)"
    by (cases "legacy_process_file tool f w")
  then have "r = Inr ()" using legacy_process_file_returns [of tool f w] by simp
  then show ?thesis using p by (simp add: then_do_def and_then_def)
qed

lemma legacy_fallback_then_placeholder:
  "(let w0 = log Info (js ''Processing '' @ file @ js ''...'') w;
        p = legacy_primary tool file w0;
        w1 = log Err ([0x274C] @ js '' Failed to process '' @ file @ js '': ''
                        @ message (projl (fst p))) (snd p);
        f = legacy_fallback tool file w1;
        w2 = log Err ([0x274C] @ js '' Fallback failed for '' @ file @ js '': ''
                        @ message (projl (fst f))) (snd f);
        res = legacy_process_file tool file w
    in fst res = Inr ()
     \<and> (\<not> isl (fst p) \<longrightarrow> snd res = snd p)
     \<and> (isl (fst p) \<and> \<not> isl (fst f) \<longrightarrow> snd res = snd f)
     \<and> (isl (fst p) \<and> isl (fst f) \<longrightarrow>
          snd res = writeFileSync (outThumb file) (placeholder file (projl (fst p)))
                     (writeFileSync (outFull file) (placeholder file (projl (fst p))) w2)
          \<and> files (snd res) (outFull file) = Some (placeholder file (projl (fst p)))
          \<and> files (snd res) (outThumb file) = Some (placeholder file (projl (fst p))))
     \<and> length (new_cmds w0 (snd p)) \<le> 4
     \<and> length (new_cmds w1 (snd f)) \<le> 2
     \<and> fst (forEach (legacy_process_file tool) rest (snd res)) = Inr ()
     \<and> forEach (legacy_process_file tool) (file # rest) w
         = forEach (legacy_process_file tool) rest (snd res))"
proof -
  define w0 where "w0 = log Info (js ''Processing '' @ file @ js ''...'') w"
  define p where "p = legacy_primary tool file w0"
  define w1 where "w1 = log Err ([0x274C] @ js '' Failed to process '' @ file @ js '': ''
                        @ message (projl (fst p))) (snd p)"
  define f where "f = legacy_fallback tool file w1"
  define w2 where "w2 = log Err ([0x274C] @ js '' Fallback failed for '' @ file @ js '': ''
                        @ message (projl (fst f))) (snd f)"
  define res where "res = legacy_process_file tool file w"
  have 1: "fst res = Inr ()" unfolding res_def by (rule legacy_process_file_returns)
  have 2: "\<not> isl (fst p) \<longrightarrow> snd res = snd p"
    unfolding res_def p_def w0_def
    by (auto simp: legacy_process_file_cases split: prod.splits sum.splits)
  have 3: "isl (fst p) \<and> \<not> isl (fst f) \<longrightarrow> snd res = snd f"
    unfolding res_def f_def w1_def p_def w0_def
    by (auto simp: legacy_process_file_cases split: prod.splits sum.splits)
  have 4: "isl (fst p) \<and> isl (fst f) \<longrightarrow>
      snd res = writeFileSync (outThumb file) (placeholder file (projl (fst p)))
                     (writeFileSync (outFull file) (placeholder file (projl (fst p))) w2)"
    unfolding res_def w2_def f_def w1_def p_def w0_def
    by (auto simp: legacy_process_file_cases split: prod.splits sum.splits)
  have 5: "isl (fst p) \<and> isl (fst f) \<longrightarrow>
      files (snd res) (outFull file) = Some (placeholder file (projl (fst p)))
      \<and> files (snd res) (outThumb file) = Some (placeholder file (projl (fst p)))"
    using 4 by (auto simp: writeFileSync_def)
  have 6: "length (new_cmds w0 (snd p)) \<le> 4"
    unfolding p_def by (rule new_cmds_bound [of "\<lambda>c. True"]) (rule issues_legacy_primary)
  have 7: "length (new_cmds w1 (snd f)) \<le> 2"
    unfolding f_def by (rule new_cmds_bound [of "\<lambda>c. True"]) (rule issues_legacy_fallback)
  have 8: "fst (forEach (legacy_process_file tool) rest (snd res)) = Inr ()"
    by (rule forEach_legacy_process_file_returns)
  have 9: "forEach (legacy_process_file tool) (file # rest) w
         = forEach (legacy_process_file tool) rest (snd res)"
    unfolding res_def by (rule forEach_legacy_process_file_step)
  show ?thesis
    unfolding Let_def
    using 1 2 3 4 5 6 7 8 9
    unfolding res_def w2_def f_def w1_def p_def w0_def
    by blast
qed

lemma legacy_tool_normalises_verify:
  "legacy_tool_normalises (legacy_verify_cmd (js ''a.jpg'')) w = (Inr [], files w)"
  by (simp add: legacy_tool_normalises_def)

lemma legacy_tool_normalises_normalise:
  "legacy_tool_normalises (legacy_normalise_cmd (js ''a.jpg'')) w
     = (Inr [], (files w)(temp (js ''a.jpg'') \<mapsto> js ''stripped''))"
  by (simp add: legacy_tool_normalises_def legacy_verify_cmd_def legacy_normalise_cmd_def js_def)

lemma legacy_tool_normalises_resize:
  "legacy_tool_normalises (legacy_full_cmd src (js ''a.jpg'')) w = (Inl (js ''Command failed''), files w)"
  by (simp add: legacy_tool_normalises_def legacy_verify_cmd_def legacy_normalise_cmd_def
        legacy_full_cmd_def quoted_def eval_paths)
     (auto simp add: js_def)

lemma legacy_temp_file_left_behind:
  "fst (legacy_primary legacy_tool_normalises (js ''a.jpg'')
         (log Info (js ''Processing '' @ js ''a.jpg'' @ js ''...'') world0))
     = Inl (Error (js ''Command failed''))
   \<and> fst (legacy_process_file legacy_tool_normalises (js ''a.jpg'') world0) = Inr ()
   \<and> files (snd (legacy_process_file legacy_tool_normalises (js ''a.jpg'') world0)) (temp (js ''a.jpg''))
       = Some (js ''stripped'')"
  by (simp add: eval_action legacy_primary_def legacy_fallback_def legacy_process_file_def
        world0_def legacy_tool_normalises_verify legacy_tool_normalises_normalise
        legacy_tool_normalises_resize paths_distinct)

end
